theory Spec2Isabelle
  imports Complex_Main
begin

section \<open>Numbers, vectors and the objects of the rendering engine\<close>

text \<open>
  The program is a three.js scene: a water plane, a sky and a floating model, driven by a
  per-frame callback, a pointer-move handler and a resize handler. It exists in two
  variants with the same scene code: a standalone script (\<open>Ocean.js\<close>: module globals,
  \<open>init\<close> run once on \<open>DOMContentLoaded\<close>, no teardown) and a React component
  (\<open>Ocean copy.jsx\<close>: the same code inside an effect, with a cleanup function).

  A JavaScript Number is an IEEE-754 double. The two Numbers that the program carries
  from frame to frame and accumulates, \<open>camera.position.x\<close> and the water's \<open>time\<close>
  uniform, are computed as the code computes them: every operation is the exact one
  followed by rounding to binary64 (\<open>round64\<close>), and a decimal literal is the double
  nearest to it. The other expressions are evaluated afresh from their inputs in every
  call and are written with the code's own operations over the reals (\<open>Math.sin\<close> is
  implementation-approximated, and pointer coordinates and window widths are integers,
  on which the operations of the code are exact). A division whose result is not finite
  in JavaScript (a zero divisor) is \<open>None\<close>.

  The engine (three.js) and the DOM are collaborators of the program, not part of it. Their
  objects are records holding the fields the program reads or writes; their operations are
  modelled as three.js and the DOM standard document them.
\<close>

definition js_div :: "real \<Rightarrow> real \<Rightarrow> real option" where
  "js_div a b = (if b = 0 then None else Some (a / b))"

text \<open>
  Rounding to binary64: a significand of 53 bits, exponents from -1022 (below it the
  subnormal numbers), round to nearest, ties to the even significand. A result beyond the
  largest double, which JavaScript gives as \<open>Infinity\<close>, is outside the model; no value
  below comes near it.
\<close>

definition round_half_even :: "real \<Rightarrow> int" where
  "round_half_even q =
     (let n = \<lfloor>q\<rfloor>; f = q - of_int n
      in if f < 1 / 2 then n else if 1 / 2 < f then n + 1 else if even n then n else n + 1)"

definition exponent64 :: "real \<Rightarrow> int" where
  "exponent64 r = max \<lfloor>log 2 \<bar>r\<bar>\<rfloor> (- 1022)"

definition round64 :: "real \<Rightarrow> real" where
  "round64 r =
     (if r = 0 then 0
      else of_int (round_half_even (r / 2 powr (exponent64 r - 52))) * 2 powr (exponent64 r - 52))"

definition fadd :: "real \<Rightarrow> real \<Rightarrow> real" where
  "fadd a b = round64 (a + b)"

definition fsub :: "real \<Rightarrow> real \<Rightarrow> real" where
  "fsub a b = round64 (a - b)"

definition fmul :: "real \<Rightarrow> real \<Rightarrow> real" where
  "fmul a b = round64 (a * b)"

definition fdiv :: "real \<Rightarrow> real \<Rightarrow> real" where
  "fdiv a b = round64 (a / b)"

record Vector3 =
  vx :: real
  vy :: real
  vz :: real

definition Vector3_new :: Vector3 where
  \<comment> \<open>\<open>new THREE.Vector3()\<close>\<close>
  "Vector3_new = \<lparr>vx = 0, vy = 0, vz = 0\<rparr>"

definition vec_set :: "real \<Rightarrow> real \<Rightarrow> real \<Rightarrow> Vector3" where
  "vec_set a b c = \<lparr>vx = a, vy = b, vz = c\<rparr>"

definition setScalar :: "real \<Rightarrow> Vector3" where
  "setScalar a = vec_set a a a"

definition vec_length :: "Vector3 \<Rightarrow> real" where
  "vec_length v = sqrt (vx v * vx v + vy v * vy v + vz v * vz v)"

definition divideScalar :: "Vector3 \<Rightarrow> real \<Rightarrow> Vector3" where
  "divideScalar v s = \<lparr>vx = vx v / s, vy = vy v / s, vz = vz v / s\<rparr>"

definition normalize_vec :: "Vector3 \<Rightarrow> Vector3" where
  \<comment> \<open>Modelled from the spec: three.js's \<open>Vector3.normalize\<close> is not under src/; it is
      \<open>this.divideScalar(this.length() || 1)\<close>, the vector scaled to length 1.\<close>
  "normalize_vec v = divideScalar v (if vec_length v = 0 then 1 else vec_length v)"

definition setFromSphericalCoords :: "real \<Rightarrow> real \<Rightarrow> real \<Rightarrow> Vector3" where
  \<comment> \<open>Modelled from the spec: three.js's \<open>Vector3.setFromSphericalCoords(radius, phi, theta)\<close>
      is not under src/. The spec asks for the direction vector of the given elevation and
      azimuth; this is three.js's formula (\<open>phi\<close> the polar angle from the y axis, \<open>theta\<close>
      the angle around it).\<close>
  "setFromSphericalCoords radius phi theta =
     (let sinPhiRadius = sin phi * radius
      in \<lparr>vx = sinPhiRadius * sin theta, vy = cos phi * radius, vz = sinPhiRadius * cos theta\<rparr>)"

definition degToRad :: "real \<Rightarrow> real" where
  \<comment> \<open>\<open>THREE.MathUtils.degToRad\<close>: degrees times \<open>Math.PI / 180\<close>\<close>
  "degToRad d = d * (pi / 180)"

record Euler =
  rot_x :: real
  rot_y :: real
  rot_z :: real

record Object3D =
  position :: Vector3
  rotation :: Euler
  scale :: Vector3
  meshes_disposed :: bool

datatype wrapping = ClampToEdgeWrapping | RepeatWrapping

record Texture =
  wrapS :: wrapping
  wrapT :: wrapping

record Water =
  water_rotation_x :: real
  uniform_time :: real
  uniform_sunDirection :: Vector3
  waterNormals :: Texture
  water_geometry_disposed :: bool
  water_material_disposed :: bool

definition Water_new :: Water where
  \<comment> \<open>Modelled from the spec: the constructor of \<open>Water\<close> is three.js's, not under src/.
      The spec's water phase is 0 before the first frame; three.js starts the \<open>time\<close>
      uniform at 0.0 and takes the \<open>sunDirection\<close> uniform from the options (here
      \<open>new THREE.Vector3()\<close>). The normal map is the texture whose load is in flight.\<close>
  "Water_new = \<lparr>water_rotation_x = 0, uniform_time = 0, uniform_sunDirection = Vector3_new,
     waterNormals = \<lparr>wrapS = ClampToEdgeWrapping, wrapT = ClampToEdgeWrapping\<rparr>,
     water_geometry_disposed = False, water_material_disposed = False\<rparr>"

record Sky =
  sky_scale :: Vector3
  turbidity :: real
  rayleigh :: real
  mieCoefficient :: real
  mieDirectionalG :: real
  uniform_sunPosition :: Vector3
  sky_geometry_disposed :: bool
  sky_material_disposed :: bool

definition Sky_new :: Sky where
  \<comment> \<open>\<open>new Sky()\<close>; every uniform is overwritten by \<open>init\<close> before it is read\<close>
  "Sky_new = \<lparr>sky_scale = setScalar 1, turbidity = 2, rayleigh = 1, mieCoefficient = 0.005,
     mieDirectionalG = 0.8, uniform_sunPosition = Vector3_new,
     sky_geometry_disposed = False, sky_material_disposed = False\<rparr>"

text \<open>
  The scene graph holds references. There is one water node, one sky node and at most one
  model node in a session, so a node is named by its kind and its data lives in the
  session variable that references it (\<open>water\<close>, \<open>sky\<close>, \<open>modelT\<close>).
\<close>

datatype node = WaterNode | SkyNode | ModelNode

record Scene =
  scene_children :: "node list"
  environment :: "nat option"

definition Scene_new :: Scene where
  "Scene_new = \<lparr>scene_children = [], environment = None\<rparr>"

definition detach :: "node \<Rightarrow> Scene \<Rightarrow> Scene" where
  \<comment> \<open>\<open>object.removeFromParent()\<close>, seen from a scene that may be the parent\<close>
  "detach n sc = sc\<lparr>scene_children := remove1 n (scene_children sc)\<rparr>"

definition add_node :: "node \<Rightarrow> Scene \<Rightarrow> Scene" where
  \<comment> \<open>\<open>Object3D.add\<close>: the object leaves its previous parent and is pushed last\<close>
  "add_node n sc = sc\<lparr>scene_children := remove1 n (scene_children sc) @ [n]\<rparr>"

record PerspectiveCamera =
  fov :: real
  aspect :: "real option"
  near :: real
  far :: real
  cam_position :: Vector3
  lookAt_target :: "Vector3 option"
  projection_aspect :: "real option"

definition PerspectiveCamera_new :: "real \<Rightarrow> real option \<Rightarrow> real \<Rightarrow> real \<Rightarrow> PerspectiveCamera" where
  \<comment> \<open>the constructor computes the projection matrix from its arguments\<close>
  "PerspectiveCamera_new f a n fa = \<lparr>fov = f, aspect = a, near = n, far = fa,
     cam_position = Vector3_new, lookAt_target = None, projection_aspect = a\<rparr>"

definition updateProjectionMatrix :: "PerspectiveCamera \<Rightarrow> PerspectiveCamera" where
  "updateProjectionMatrix c = c\<lparr>projection_aspect := aspect c\<rparr>"

datatype toneMapping = NoToneMapping | ACESFilmicToneMapping

datatype handler = H_animate nat | H_onDocumentMouseMove nat | H_onWindowResize nat

record WebGLRenderer =
  domElement :: nat
  pixelRatio :: real
  renderer_size :: "real \<times> real"
  animationLoop :: "handler option"
  toneMapping :: toneMapping
  toneMappingExposure :: real
  drawn :: "node list list"
  renderer_disposed :: bool
  contextLost :: bool

definition WebGLRenderer_new :: "nat \<Rightarrow> WebGLRenderer" where
  \<comment> \<open>\<open>new THREE.WebGLRenderer()\<close> creates its own canvas, here named by a number\<close>
  "WebGLRenderer_new c = \<lparr>domElement = c, pixelRatio = 1, renderer_size = (300, 150),
     animationLoop = None, toneMapping = NoToneMapping, toneMappingExposure = 1,
     drawn = [], renderer_disposed = False, contextLost = False\<rparr>"

definition renderer_render :: "Scene \<Rightarrow> WebGLRenderer \<Rightarrow> WebGLRenderer" where
  \<comment> \<open>\<open>renderer.render(scene, camera)\<close>: the draw is recorded by the nodes it draws\<close>
  "renderer_render sc r = r\<lparr>drawn := drawn r @ [scene_children sc]\<rparr>"

definition renderer_dispose :: "WebGLRenderer \<Rightarrow> WebGLRenderer" where
  \<comment> \<open>\<open>renderer.dispose()\<close> releases the renderer's resources and stops its animation loop\<close>
  "renderer_dispose r = r\<lparr>renderer_disposed := True, animationLoop := None\<rparr>"

section \<open>The page and the session\<close>

datatype dom_node = Canvas nat | OtherContent nat

record Element =
  clientWidth :: real
  clientHeight :: real
  children :: "dom_node list"

type_synonym js_error = string

datatype log_entry =
    Error_NoContainer
  | Error_LoadingTexture string
  | Log_PercentLoaded real real
  | Error_WaterNormals js_error
  | Error_GLTFModel js_error

text \<open>
  The page as the program sees it: the element with id \<open>three\<close> if there is one, the
  window's inner width and pixel ratio, the console, and the listeners registered on
  \<open>document\<close> for \<open>mousemove\<close> and on \<open>window\<close> for \<open>resize\<close>. \<open>fresh\<close> is not part of
  the page: it is the supply of names for the closures and canvases the program creates.
\<close>

record world =
  container :: "Element option"
  innerWidth :: real
  devicePixelRatio :: real
  console :: "log_entry list"
  mousemove_listeners :: "handler list"
  resize_listeners :: "handler list"
  fresh :: nat

definition addEventListener :: "handler \<Rightarrow> handler list \<Rightarrow> handler list" where
  \<comment> \<open>DOM: a listener that is already registered for the event is not added again\<close>
  "addEventListener h hs = (if h \<in> set hs then hs else hs @ [h])"

definition removeEventListener :: "handler \<Rightarrow> handler list \<Rightarrow> handler list" where
  "removeEventListener h hs = remove1 h hs"

definition console_log :: "log_entry \<Rightarrow> world \<Rightarrow> world" where
  "console_log l w = w\<lparr>console := console w @ [l]\<rparr>"

datatype request = NotRequested | InFlight | Settled

text \<open>
  The variables of one run of the program: the module globals of the standalone script, or
  the variables of one run of the component's effect, and with them the variables of
  \<open>init\<close> that its closures (\<open>updateSun\<close>, the load callbacks) keep alive. \<open>None\<close> is
  JavaScript's \<open>undefined\<close>. \<open>sid\<close> names the closures of this run, so that a listener
  registered by one run is not the listener of another.
\<close>

record session =
  sid :: nat
  camera :: "PerspectiveCamera option"
  scene :: "Scene option"
  renderer :: "WebGLRenderer option"
  water :: "Water option"
  sun :: "Vector3 option"
  modelT :: "Object3D option"
  mouseX :: real
  windowHalfX :: real
  sky :: "Sky option"
  sceneEnv :: "Scene option"
  renderTarget :: "nat option"
  targets_made :: nat
  disposed_targets :: "nat list"
  texture_request :: request
  model_request :: request

datatype error = TypeError

section \<open>The per-frame update\<close>

definition render :: "real \<Rightarrow> session \<Rightarrow> error + session" where
  \<comment> \<open>\<open>now\<close> is the value of \<open>performance.now()\<close> in this frame; a variable that is still
      \<open>undefined\<close> where the code dereferences it raises\<close>
  "render now s =
     (case (camera s, water s, renderer s, scene s) of
        (Some cam, Some wt, Some r, Some sc) \<Rightarrow>
          (let time = now * 0.001;
               cam = cam\<lparr>cam_position := (cam_position cam)
                 \<lparr>vx := fadd (vx (cam_position cam))
                          (fmul (fsub (fmul (mouseX s) (round64 0.015)) (vx (cam_position cam)))
                                (round64 0.05))\<rparr>\<rparr>;
               cam = cam\<lparr>lookAt_target := Some (vec_set 0 16 0)\<rparr>;
               s = s\<lparr>camera := Some cam\<rparr>;
               s = (case modelT s of
                      None \<Rightarrow> s
                    | Some m \<Rightarrow>
                       (let m = m\<lparr>position := (position m)\<lparr>vy := sin time * 20 + 5\<rparr>\<rparr>;
                            m = m\<lparr>rotation := (rotation m)\<lparr>rot_z := time * 0.5\<rparr>\<rparr>;
                            m = m\<lparr>rotation := (rotation m)\<lparr>rot_y := time * 0.51\<rparr>\<rparr>;
                            m = m\<lparr>rotation := (rotation m)\<lparr>rot_x := time * 0.51\<rparr>\<rparr>
                        in s\<lparr>modelT := Some m\<rparr>));
               s = s\<lparr>water := Some (wt\<lparr>uniform_time := fadd (uniform_time wt) (fdiv 1.0 40.0)\<rparr>)\<rparr>
           in Inr (s\<lparr>renderer := Some (renderer_render sc r)\<rparr>))
      | _ \<Rightarrow> Inl TypeError)"

definition animate :: "real \<Rightarrow> session \<Rightarrow> error + session" where
  "animate now s = render now s"

section \<open>The sun and the lighting environment\<close>

definition updateSun :: "session \<Rightarrow> error + session" where
  \<comment> \<open>A render target is named by a number, and so is its texture; \<open>targets_made\<close> is the
      state of the PMREM generator, which makes a new target at every \<open>fromScene\<close>.\<close>
  "updateSun s =
     (case (sun s, sky s, water s, sceneEnv s, scene s) of
        (Some _, Some k, Some wt, Some env, Some sc) \<Rightarrow>
          (let phi = degToRad (90 - 2);
               theta = degToRad 180;
               v = setFromSphericalCoords 1 phi theta;
               s = s\<lparr>sun := Some v\<rparr>;
               s = s\<lparr>sky := Some (k\<lparr>uniform_sunPosition := v\<rparr>)\<rparr>;
               s = s\<lparr>water := Some (wt\<lparr>uniform_sunDirection := normalize_vec v\<rparr>)\<rparr>;
               s = (case renderTarget s of
                      None \<Rightarrow> s
                    | Some t \<Rightarrow> s\<lparr>disposed_targets := disposed_targets s @ [t]\<rparr>);
               env = add_node SkyNode env;
               sc = detach SkyNode sc;
               s = s\<lparr>renderTarget := Some (targets_made s), targets_made := Suc (targets_made s)\<rparr>;
               sc = add_node SkyNode sc;
               env = detach SkyNode env;
               sc = sc\<lparr>environment := renderTarget s\<rparr>
           in Inr (s\<lparr>sceneEnv := Some env, scene := Some sc\<rparr>))
      | _ \<Rightarrow> Inl TypeError)"

section \<open>Initialisation\<close>

definition init_scene :: "Element \<Rightarrow> world \<Rightarrow> session \<Rightarrow> error + world \<times> session" where
  \<comment> \<open>The body of \<open>init\<close> from the renderer to the model load: the same statements in both
      variants (the component also builds a box mesh that it never adds to the scene).\<close>
  "init_scene c w s =
     (let c = (if length (children c) > 0 then c\<lparr>children := []\<rparr> else c);
          r = WebGLRenderer_new (fresh w);
          w = w\<lparr>fresh := Suc (fresh w)\<rparr>;
          r = r\<lparr>pixelRatio := devicePixelRatio w\<rparr>;
          r = r\<lparr>renderer_size := (clientWidth c, clientHeight c)\<rparr>;
          r = r\<lparr>animationLoop := Some (H_animate (sid s))\<rparr>;
          r = r\<lparr>toneMapping := ACESFilmicToneMapping\<rparr>;
          r = r\<lparr>toneMappingExposure := 0.5\<rparr>;
          c = c\<lparr>children := children c @ [Canvas (domElement r)]\<rparr>;
          w = w\<lparr>container := Some c\<rparr>;
          s = s\<lparr>renderer := Some r\<rparr>;
          sc = Scene_new;
          cam = PerspectiveCamera_new 55 (js_div (clientWidth c) (clientHeight c)) 1 20000;
          cam = cam\<lparr>cam_position := vec_set 30 30 120\<rparr>;
          s = s\<lparr>camera := Some cam\<rparr>;
          s = s\<lparr>sun := Some Vector3_new\<rparr>;
          s = s\<lparr>texture_request := InFlight\<rparr>;
          wt = Water_new;
          wt = wt\<lparr>water_rotation_x := - pi / 2\<rparr>;
          s = s\<lparr>water := Some wt\<rparr>;
          sc = add_node WaterNode sc;
          k = Sky_new;
          k = k\<lparr>sky_scale := setScalar 10000\<rparr>;
          sc = add_node SkyNode sc;
          k = k\<lparr>turbidity := 10\<rparr>;
          k = k\<lparr>rayleigh := 2\<rparr>;
          k = k\<lparr>mieCoefficient := 0.005\<rparr>;
          k = k\<lparr>mieDirectionalG := 0.8\<rparr>;
          s = s\<lparr>scene := Some sc, sky := Some k, sceneEnv := Some Scene_new, renderTarget := None\<rparr>
      in (case updateSun s of
            Inl e \<Rightarrow> Inl e
          | Inr s \<Rightarrow> Inr (w, s\<lparr>model_request := InFlight\<rparr>)))"

definition register_listeners :: "world \<Rightarrow> session \<Rightarrow> world" where
  "register_listeners w s =
     (let w = w\<lparr>mousemove_listeners :=
                 addEventListener (H_onDocumentMouseMove (sid s)) (mousemove_listeners w)\<rparr>
      in w\<lparr>resize_listeners := addEventListener (H_onWindowResize (sid s)) (resize_listeners w)\<rparr>)"

definition init :: "world \<Rightarrow> session \<Rightarrow> error + world \<times> session" where
  \<comment> \<open>\<open>init\<close> of the standalone script\<close>
  "init w s =
     (case container w of
        None \<Rightarrow> Inr (console_log Error_NoContainer w, s)
      | Some c \<Rightarrow>
          (case init_scene c w s of
             Inl e \<Rightarrow> Inl e
           | Inr ws \<Rightarrow> Inr (register_listeners (fst ws) (snd ws), snd ws)))"

definition new_session :: "world \<Rightarrow> session" where
  \<comment> \<open>the variable declarations: \<open>let camera, scene, renderer; let water, sun, modelT;
      let mouseX = 0; const windowHalfX = window.innerWidth / 2;\<close>\<close>
  "new_session w = \<lparr>sid = fresh w, camera = None, scene = None, renderer = None, water = None,
     sun = None, modelT = None, mouseX = 0, windowHalfX = innerWidth w / 2, sky = None,
     sceneEnv = None, renderTarget = None, targets_made = 0, disposed_targets = [],
     texture_request = NotRequested, model_request = NotRequested\<rparr>"

definition module_load :: "world \<Rightarrow> world \<times> session" where
  \<comment> \<open>evaluating the standalone script: its globals are declared and \<open>init\<close> is left to
      wait for \<open>DOMContentLoaded\<close>\<close>
  "module_load w = (w\<lparr>fresh := Suc (fresh w)\<rparr>, new_session w)"

definition boot :: "world \<Rightarrow> error + world \<times> session" where
  \<comment> \<open>the script is evaluated, then the browser fires \<open>DOMContentLoaded\<close> once\<close>
  "boot w = init (fst (module_load w)) (snd (module_load w))"

section \<open>Event handlers and load callbacks\<close>

definition onDocumentMouseMove :: "real \<Rightarrow> session \<Rightarrow> session" where
  "onDocumentMouseMove clientX s = s\<lparr>mouseX := (clientX - windowHalfX s) * 2\<rparr>"

definition onWindowResize :: "world \<Rightarrow> session \<Rightarrow> error + session" where
  "onWindowResize w s =
     (case container w of
        None \<Rightarrow> Inr s
      | Some c \<Rightarrow>
          (case (camera s, renderer s) of
             (Some cam, Some r) \<Rightarrow>
               (let cam = cam\<lparr>aspect := js_div (clientWidth c) (clientHeight c)\<rparr>;
                    cam = updateProjectionMatrix cam;
                    r = r\<lparr>renderer_size := (clientWidth c, clientHeight c)\<rparr>
                in Inr (s\<lparr>camera := Some cam, renderer := Some r\<rparr>))
           | _ \<Rightarrow> Inl TypeError))"

definition texture_onLoad :: "session \<Rightarrow> session" where
  \<comment> \<open>the texture handed to the callback is the water's normal map\<close>
  "texture_onLoad s =
     s\<lparr>water := map_option (\<lambda>wt. wt\<lparr>waterNormals := \<lparr>wrapS = RepeatWrapping, wrapT = RepeatWrapping\<rparr>\<rparr>)
                  (water s)\<rparr>"

definition onProgress :: "real \<Rightarrow> real \<Rightarrow> world \<Rightarrow> world" where
  \<comment> \<open>logs \<open>xhr.loaded / xhr.total * 100\<close>; the entry keeps the two operands\<close>
  "onProgress loaded tot w = console_log (Log_PercentLoaded loaded tot) w"

definition texture_onError :: "js_error \<Rightarrow> world \<Rightarrow> world" where
  "texture_onError e w = console_log (Error_WaterNormals e) w"

definition model_onLoad :: "Object3D \<Rightarrow> session \<Rightarrow> error + session" where
  \<comment> \<open>the argument is \<open>gltf.scene\<close>\<close>
  "model_onLoad gltf_scene s =
     (let m = gltf_scene;
          s = s\<lparr>modelT := Some m\<rparr>;
          m = m\<lparr>position := vec_set 0 0 0\<rparr>;
          m = m\<lparr>scale := vec_set 20 20 20\<rparr>;
          s = s\<lparr>modelT := Some m\<rparr>
      in (case scene s of
            None \<Rightarrow> Inl TypeError
          | Some sc \<Rightarrow> Inr (s\<lparr>scene := Some (add_node ModelNode sc)\<rparr>)))"

definition model_onError :: "js_error \<Rightarrow> world \<Rightarrow> world" where
  "model_onError e w = console_log (Error_GLTFModel e) w"

definition loadingManager_onError :: "string \<Rightarrow> world \<Rightarrow> world" where
  "loadingManager_onError url w = console_log (Error_LoadingTexture url) w"

definition waterNormalsUrl :: string where
  "waterNormalsUrl = ''./assets/waterNormals.jpg''"

definition modelTUrl :: string where
  "modelTUrl = ''./assets/T3.glb''"

section \<open>The standalone script as a reactive system\<close>

text \<open>
  After start-up the program only reacts: to animation frames (while the renderer holds the
  animation loop), to pointer moves and resizes (while the listener is registered), and to
  the progress and the outcome of the two loads. A loader reports progress any number of
  times and then calls exactly one of the success and error callbacks, once; on an error
  it also notifies its loading manager. A resize event carries the new inner width of the
  window and the new content box of the container.
\<close>

datatype event =
    Frame real
  | MouseMove real
  | Resize real real real
  | TextureProgress real real
  | TextureLoaded
  | TextureError js_error
  | ModelProgress real real
  | ModelLoaded Object3D
  | ModelError js_error

definition with_world :: "world \<Rightarrow> error + session \<Rightarrow> error + world \<times> session" where
  "with_world w res = (case res of Inl e \<Rightarrow> Inl e | Inr s \<Rightarrow> Inr (w, s))"

definition resized :: "real \<Rightarrow> real \<Rightarrow> real \<Rightarrow> world \<Rightarrow> world" where
  "resized iw cw ch w =
     w\<lparr>innerWidth := iw,
       container := map_option (\<lambda>c. c\<lparr>clientWidth := cw, clientHeight := ch\<rparr>) (container w)\<rparr>"

fun step :: "event \<Rightarrow> world \<times> session \<Rightarrow> error + world \<times> session" where
  "step (Frame now) (w, s) =
     (case renderer s of
        None \<Rightarrow> Inr (w, s)
      | Some r \<Rightarrow>
          if animationLoop r = Some (H_animate (sid s)) then with_world w (animate now s)
          else Inr (w, s))"
| "step (MouseMove clientX) (w, s) =
     (if H_onDocumentMouseMove (sid s) \<in> set (mousemove_listeners w)
      then Inr (w, onDocumentMouseMove clientX s) else Inr (w, s))"
| "step (Resize iw cw ch) (w, s) =
     (if H_onWindowResize (sid s) \<in> set (resize_listeners w)
      then with_world (resized iw cw ch w) (onWindowResize (resized iw cw ch w) s)
      else Inr (resized iw cw ch w, s))"
| "step (TextureProgress loaded tot) (w, s) =
     (if texture_request s = InFlight then Inr (onProgress loaded tot w, s) else Inr (w, s))"
| "step TextureLoaded (w, s) =
     (if texture_request s = InFlight
      then Inr (w, (texture_onLoad s)\<lparr>texture_request := Settled\<rparr>) else Inr (w, s))"
| "step (TextureError e) (w, s) =
     (if texture_request s = InFlight
      then Inr (loadingManager_onError waterNormalsUrl (texture_onError e w),
                s\<lparr>texture_request := Settled\<rparr>)
      else Inr (w, s))"
| "step (ModelProgress loaded tot) (w, s) =
     (if model_request s = InFlight then Inr (onProgress loaded tot w, s) else Inr (w, s))"
| "step (ModelLoaded gltf_scene) (w, s) =
     (if model_request s = InFlight
      then with_world w (model_onLoad gltf_scene (s\<lparr>model_request := Settled\<rparr>))
      else Inr (w, s))"
| "step (ModelError e) (w, s) =
     (if model_request s = InFlight
      then Inr (loadingManager_onError modelTUrl (model_onError e w),
                s\<lparr>model_request := Settled\<rparr>)
      else Inr (w, s))"

fun run :: "event list \<Rightarrow> world \<times> session \<Rightarrow> error + world \<times> session" where
  "run [] st = Inr st"
| "run (e # es) st = (case step e st of Inl x \<Rightarrow> Inl x | Inr st' \<Rightarrow> run es st')"

fun is_Frame :: "event \<Rightarrow> bool" where
  "is_Frame (Frame _) = True"
| "is_Frame _ = False"


fun is_ModelLoaded :: "event \<Rightarrow> bool" where
  "is_ModelLoaded (ModelLoaded _) = True"
| "is_ModelLoaded _ = False"

definition frames :: "event list \<Rightarrow> nat" where
  "frames evs = length (filter is_Frame evs)"

section \<open>The component: effect and cleanup\<close>

text \<open>
  The component runs the code of the script inside an effect: the same \<open>init\<close> body, the
  same \<open>render\<close>, the same pointer-move handler and the same load callbacks, over variables
  of the effect instead of module globals. It differs in what follows: the early return
  is silent, the listeners are registered by the effect and not by \<open>init\<close>, and the effect
  returns a cleanup function.
\<close>

definition Ocean_useEffect :: "world \<Rightarrow> error + world \<times> session option" where
  \<comment> \<open>One run of the effect. The pointer-move listener is registered before \<open>init()\<close> is
      called, the resize listener after it. \<open>None\<close>: the effect returned early, and there
      is no cleanup function.\<close>
  "Ocean_useEffect w =
     (case container w of
        None \<Rightarrow> Inr (w, None)
      | Some c \<Rightarrow>
          (let s = new_session w;
               w = w\<lparr>fresh := Suc (fresh w)\<rparr>;
               w = w\<lparr>mousemove_listeners :=
                     addEventListener (H_onDocumentMouseMove (sid s)) (mousemove_listeners w)\<rparr>
           in (case init_scene c w s of
                 Inl e \<Rightarrow> Inl e
               | Inr ws \<Rightarrow>
                   Inr ((fst ws)\<lparr>resize_listeners :=
                           addEventListener (H_onWindowResize (sid s)) (resize_listeners (fst ws))\<rparr>,
                        Some (snd ws)))))"

fun dispose_node :: "node \<Rightarrow> session \<Rightarrow> session" where
  \<comment> \<open>the callback of \<open>scene.traverse\<close>: \<open>geometry.dispose()\<close> and \<open>material.dispose()\<close>
      on an object that has them\<close>
  "dispose_node WaterNode s =
     s\<lparr>water := map_option
           (\<lambda>wt. wt\<lparr>water_geometry_disposed := True, water_material_disposed := True\<rparr>) (water s)\<rparr>"
| "dispose_node SkyNode s =
     s\<lparr>sky := map_option
           (\<lambda>k. k\<lparr>sky_geometry_disposed := True, sky_material_disposed := True\<rparr>) (sky s)\<rparr>"
| "dispose_node ModelNode s =
     s\<lparr>modelT := map_option (\<lambda>m. m\<lparr>meshes_disposed := True\<rparr>) (modelT s)\<rparr>"

definition remove_canvas :: "nat \<Rightarrow> world \<Rightarrow> world" where
  \<comment> \<open>\<open>renderer.domElement.remove()\<close>\<close>
  "remove_canvas c w =
     w\<lparr>container := map_option (\<lambda>el. el\<lparr>children := remove1 (Canvas c) (children el)\<rparr>)
                       (container w)\<rparr>"

definition Ocean_cleanup :: "world \<Rightarrow> session \<Rightarrow> world \<times> session" where
  \<comment> \<open>the function the effect returns, run at unmount\<close>
  "Ocean_cleanup w s =
     (let w = w\<lparr>mousemove_listeners :=
                 removeEventListener (H_onDocumentMouseMove (sid s)) (mousemove_listeners w)\<rparr>;
          w = w\<lparr>resize_listeners :=
                 removeEventListener (H_onWindowResize (sid s)) (resize_listeners w)\<rparr>;
          w = (case renderer s of None \<Rightarrow> w | Some r \<Rightarrow> remove_canvas (domElement r) w);
          s = (case renderer s of
                 None \<Rightarrow> s
               | Some r \<Rightarrow> s\<lparr>renderer := Some ((renderer_dispose r)\<lparr>contextLost := True\<rparr>)\<rparr>);
          s = (case scene s of
                 None \<Rightarrow> s
               | Some sc \<Rightarrow> fold dispose_node (scene_children sc) s)
      in (w, s))"

section \<open>Observations and an example page\<close>

definition running :: "world \<times> session \<Rightarrow> bool" where
  \<comment> \<open>the state \<open>init\<close> leaves behind when it runs to its end: camera, scene, water and
      renderer exist and the renderer holds the animation loop of this session\<close>
  "running st = (camera (snd st) \<noteq> None \<and> scene (snd st) \<noteq> None \<and> water (snd st) \<noteq> None
     \<and> map_option animationLoop (renderer (snd st)) = Some (Some (H_animate (sid (snd st)))))"

definition water_time :: "world \<times> session \<Rightarrow> real option" where
  \<comment> \<open>\<open>water.material.uniforms['time'].value\<close>\<close>
  "water_time st = map_option uniform_time (water (snd st))"

definition camera_x :: "world \<times> session \<Rightarrow> real option" where
  \<comment> \<open>\<open>camera.position.x\<close>\<close>
  "camera_x st = map_option (\<lambda>c. vx (cam_position c)) (camera (snd st))"

definition frames_drawn :: "world \<times> session \<Rightarrow> node list list option" where
  "frames_drawn st = map_option drawn (renderer (snd st))"

definition advance_time :: "real \<Rightarrow> real" where
  \<comment> \<open>one frame of the water phase: \<open>value += 1.0 / 40.0\<close>\<close>
  "advance_time t = fadd t (fdiv 1.0 40.0)"


definition water_phase_exact :: "event list \<Rightarrow> world \<Rightarrow> bool" where
  \<comment> \<open>the script starts on the page, the events happen, and the water phase is then
      exactly the number of frames divided by 40\<close>
  "water_phase_exact evs w =
     (case boot w of
        Inl _ \<Rightarrow> False
      | Inr st0 \<Rightarrow>
          (case run evs st0 of
             Inl _ \<Rightarrow> False
           | Inr st \<Rightarrow> water_time st = Some (real (frames evs) / 40)))"


definition host :: Element where
  "host = \<lparr>clientWidth = 800, clientHeight = 600, children = []\<rparr>"

definition page :: "Element option \<Rightarrow> world" where
  \<comment> \<open>a page 1000 pixels wide with no listeners yet, with or without the container\<close>
  "page c = \<lparr>container = c, innerWidth = 1000, devicePixelRatio = 1, console = [],
     mousemove_listeners = [], resize_listeners = [], fresh = 0\<rparr>"

definition gltf :: Object3D where
  "gltf = \<lparr>position = vec_set 1 2 3, rotation = \<lparr>rot_x = 0, rot_y = 0, rot_z = 0\<rparr>,
     scale = vec_set 1 1 1, meshes_disposed = False\<rparr>"


definition records_offset_from_center :: "real \<Rightarrow> session \<Rightarrow> bool" where
  \<comment> \<open>the pointer state after a pointer move at \<open>clientX\<close> is \<open>clientX\<close> minus the
      half-width\<close>
  "records_offset_from_center clientX s =
     (mouseX (onDocumentMouseMove clientX s) = clientX - windowHalfX s)"

fun is_model_outcome :: "event \<Rightarrow> bool" where
  "is_model_outcome (ModelLoaded _) = True"
| "is_model_outcome (ModelError _) = True"
| "is_model_outcome _ = False"

definition water_and_sky_only :: "world \<times> session \<Rightarrow> bool" where
  \<comment> \<open>a running session without the model: the scene holds the water and the sky\<close>
  "water_and_sky_only st = (running st \<and> modelT (snd st) = None
     \<and> map_option scene_children (scene (snd st)) = Some [WaterNode, SkyNode])"


definition late_load_is_noop :: "Object3D \<Rightarrow> world \<Rightarrow> bool" where
  \<comment> \<open>the component is mounted on the page and unmounted; then the model arrives, and the
      success callback leaves the session as the cleanup left it\<close>
  "late_load_is_noop g w =
     (case Ocean_useEffect w of
        Inr (w1, Some s1) \<Rightarrow>
          model_onLoad g (snd (Ocean_cleanup w1 s1)) = Inr (snd (Ocean_cleanup w1 s1))
      | _ \<Rightarrow> True)"

definition effect_logs_missing_container :: "world \<Rightarrow> bool" where
  \<comment> \<open>the effect of the component leaves the error about the container on the console\<close>
  "effect_logs_missing_container w =
     (case Ocean_useEffect w of
        Inr ws \<Rightarrow> Error_NoContainer \<in> set (console (fst ws))
      | Inl _ \<Rightarrow> False)"

section \<open>Rounding to binary64\<close>

lemma round_half_even_error: "\<bar>of_int (round_half_even q) - q\<bar> \<le> 1 / 2"
  unfolding round_half_even_def Let_def
  by (auto simp: abs_if not_less) linarith+

lemma round_half_even_near:
  assumes "\<bar>q - of_int n\<bar> < 1 / 2"
  shows "round_half_even q = n"
proof -
  have "\<bar>of_int (round_half_even q) - q\<bar> \<le> 1 / 2" by (rule round_half_even_error)
  with assms have "\<bar>(of_int (round_half_even q) :: real) - of_int n\<bar> < 1" by linarith
  then have "\<bar>round_half_even q - n\<bar> < 1"
    by (metis of_int_diff of_int_abs of_int_less_1_iff)
  then show ?thesis by linarith
qed

lemma round_half_even_tie:
  assumes "q = of_int n + 1 / 2 \<or> q = of_int n - 1 / 2" and "even n"
  shows "round_half_even q = n"
proof -
  from assms(1) show ?thesis
  proof
    assume q: "q = of_int n + 1 / 2"
    then have "\<lfloor>q\<rfloor> = n" by linarith
    then show ?thesis using q assms(2) by (simp add: round_half_even_def)
  next
    assume q: "q = of_int n - 1 / 2"
    then have f: "\<lfloor>q\<rfloor> = n - 1" by linarith
    then show ?thesis using q assms(2) by (simp add: round_half_even_def)
  qed
qed

lemma exponent64_scaled:
  assumes "k \<le> 1074" and "2 ^ 52 \<le> \<bar>r\<bar> * 2 ^ k" and "\<bar>r\<bar> * 2 ^ k < 2 ^ 53"
  shows "exponent64 r = 52 - int k"
proof -
  have r0: "0 < \<bar>r\<bar>" using assms(2) by (auto simp: zero_less_mult_iff intro: order_less_le_trans[of 0 "2^52"])
  have "2 powr (52 - int k) \<le> \<bar>r\<bar>"
    using assms(2) by (simp add: powr_diff powr_realpow field_simps)
  moreover have "\<bar>r\<bar> < 2 powr (52 - int k + 1)"
    using assms(3) by (simp add: powr_diff powr_add powr_realpow field_simps)
  ultimately have "\<lfloor>log 2 \<bar>r\<bar>\<rfloor> = 52 - int k"
    using r0 by (simp add: floor_log_eq_powr_iff)
  then show ?thesis using assms(1) by (simp add: exponent64_def)
qed

lemma round64_scaled:
  assumes "k \<le> 1074" and "2 ^ 52 \<le> \<bar>r\<bar> * 2 ^ k" and "\<bar>r\<bar> * 2 ^ k < 2 ^ 53"
  shows "round64 r = of_int (round_half_even (r * 2 ^ k)) / 2 ^ k"
proof -
  have r0: "r \<noteq> 0" using assms(2) by auto
  have e: "exponent64 r - 52 = - int k" using exponent64_scaled [OF assms] by simp
  have p: "2 powr (- int k) = 1 / 2 ^ k" by (simp add: powr_minus powr_realpow field_simps)
  show ?thesis using r0 by (simp add: round64_def e p del: of_int_minus)
qed

lemma round64_near:
  assumes "k \<le> 1074" and "2 ^ 52 \<le> \<bar>r\<bar> * 2 ^ k" and "\<bar>r\<bar> * 2 ^ k < 2 ^ 53"
    and "\<bar>r * 2 ^ k - of_int n\<bar> < 1 / 2"
  shows "round64 r = of_int n / 2 ^ k"
  using round64_scaled [OF assms(1-3)] round_half_even_near [OF assms(4)] by simp

lemma round64_tie:
  assumes "k \<le> 1074" and "2 ^ 52 \<le> \<bar>r\<bar> * 2 ^ k" and "\<bar>r\<bar> * 2 ^ k < 2 ^ 53"
    and "r * 2 ^ k = of_int n + 1 / 2 \<or> r * 2 ^ k = of_int n - 1 / 2" and "even n"
  shows "round64 r = of_int n / 2 ^ k"
  using round64_scaled [OF assms(1-3)] round_half_even_tie [OF assms(4,5)] by simp

lemma round64_error:
  assumes "\<bar>r\<bar> \<le> 2 ^ m"
  shows "\<bar>round64 r - r\<bar> \<le> 2 ^ m / 2 ^ 53"
proof (cases "r = 0")
  case True
  then show ?thesis by (simp add: round64_def)
next
  case False
  define E where "E = exponent64 r"
  define u where "u = 2 powr (E - 52)"
  have u0: "0 < u" by (simp add: u_def)
  have "log 2 \<bar>r\<bar> \<le> log 2 (2 ^ m)"
    using False assms by (subst log_le_cancel_iff) simp_all
  also have "log 2 (2 ^ m) = real m" by (simp add: log_nat_power)
  finally have "log 2 \<bar>r\<bar> \<le> m" .
  then have "\<lfloor>log 2 \<bar>r\<bar>\<rfloor> \<le> int m" by linarith
  then have Em: "E \<le> int m" by (simp add: E_def exponent64_def)
  have "round64 r - r = u * (of_int (round_half_even (r / u)) - r / u)"
    using False u0 by (simp add: round64_def E_def u_def algebra_simps)
  then have "\<bar>round64 r - r\<bar> = u * \<bar>of_int (round_half_even (r / u)) - r / u\<bar>"
    using u0 by (simp add: abs_mult)
  also have "\<dots> \<le> u * (1 / 2)"
    using u0 round_half_even_error [of "r / u"] by (intro mult_left_mono) simp_all
  also have "\<dots> = 2 powr (E - 53)"
    by (simp add: u_def powr_diff)
  also have "\<dots> \<le> 2 powr (int m - 53)" using Em by simp
  also have "\<dots> = 2 ^ m / 2 ^ 53" by (simp add: powr_diff powr_realpow)
  finally show ?thesis .
qed

section \<open>Start-up and the invariant of a running session\<close>

lemma init_scene_result:
  "\<exists>w' s'. init_scene c w s = Inr (w', s') \<and> running (w', s') \<and> sid s' = sid s
     \<and> water_time (w', s') = Some 0
     \<and> modelT s' = modelT s \<and> model_request s' = InFlight
     \<and> map_option scene_children (scene s') = Some [WaterNode, SkyNode]
     \<and> frames_drawn (w', s') = Some []
     \<and> camera_x (w', s') = Some 30
     \<and> mouseX s' = mouseX s \<and> windowHalfX s' = windowHalfX s
     \<and> mousemove_listeners w' = mousemove_listeners w \<and> resize_listeners w' = resize_listeners w
     \<and> console w' = console w \<and> innerWidth w' = innerWidth w \<and> fresh w' = Suc (fresh w)"
  by (simp add: init_scene_def updateSun_def Let_def running_def Water_new_def Sky_new_def
      Scene_new_def add_node_def detach_def WebGLRenderer_new_def PerspectiveCamera_new_def
      water_time_def camera_x_def frames_drawn_def vec_set_def)

lemma boot_result:
  assumes "container w = Some c"
  shows "\<exists>w' s'. boot w = Inr (w', s') \<and> running (w', s')
     \<and> water_time (w', s') = Some 0
     \<and> modelT s' = None \<and> model_request s' = InFlight
     \<and> map_option scene_children (scene s') = Some [WaterNode, SkyNode]
     \<and> frames_drawn (w', s') = Some []
     \<and> camera_x (w', s') = Some 30
     \<and> mouseX s' = 0 \<and> windowHalfX s' = innerWidth w / 2
     \<and> H_onDocumentMouseMove (sid s') \<in> set (mousemove_listeners w')
     \<and> H_onWindowResize (sid s') \<in> set (resize_listeners w')
     \<and> console w' = console w"
proof -
  let ?w = "fst (module_load w)" and ?s = "snd (module_load w)"
  have c: "container ?w = Some c" using assms by (simp add: module_load_def)
  obtain w1 s1 where i: "init_scene c ?w ?s = Inr (w1, s1)" and r: "running (w1, s1)"
    and f: "sid s1 = sid ?s" "water_time (w1, s1) = Some 0" "modelT s1 = modelT ?s"
      "model_request s1 = InFlight"
      "map_option scene_children (scene s1) = Some [WaterNode, SkyNode]"
      "frames_drawn (w1, s1) = Some []" "camera_x (w1, s1) = Some 30"
      "mouseX s1 = mouseX ?s" "windowHalfX s1 = windowHalfX ?s" "console w1 = console ?w"
    using init_scene_result [of c ?w ?s] by blast
  have b: "boot w = Inr (register_listeners w1 s1, s1)"
    by (simp add: boot_def init_def c i)
  have l: "H_onDocumentMouseMove (sid s1) \<in> set (mousemove_listeners (register_listeners w1 s1))"
     "H_onWindowResize (sid s1) \<in> set (resize_listeners (register_listeners w1 s1))"
     "console (register_listeners w1 s1) = console w1"
    by (simp_all add: register_listeners_def addEventListener_def Let_def)
  have m: "modelT ?s = None" "mouseX ?s = 0" "windowHalfX ?s = innerWidth w / 2"
    "console ?w = console w"
    by (simp_all add: module_load_def new_session_def)
  show ?thesis
    using b r f l m by (simp add: running_def water_time_def camera_x_def frames_drawn_def)
qed

lemma step_running:
  assumes "running st"
  shows "\<exists>st'. step e st = Inr st' \<and> running st' \<and> sid (snd st') = sid (snd st)
     \<and> windowHalfX (snd st') = windowHalfX (snd st)"
proof -
  obtain w s where st: "st = (w, s)" by (cases st)
  from assms st obtain cam sc wt r where
    v: "camera s = Some cam" "scene s = Some sc" "water s = Some wt" "renderer s = Some r"
       "animationLoop r = Some (H_animate (sid s))"
    by (auto simp: running_def)
  show ?thesis
    unfolding st
    by (cases e)
       (simp_all add: v running_def with_world_def animate_def render_def Let_def
          onDocumentMouseMove_def onWindowResize_def resized_def updateProjectionMatrix_def
          renderer_render_def texture_onLoad_def model_onLoad_def
          split: option.splits)
qed

lemma run_running:
  "running st \<Longrightarrow> \<exists>st'. run evs st = Inr st' \<and> running st' \<and> sid (snd st') = sid (snd st)
     \<and> windowHalfX (snd st') = windowHalfX (snd st)"
proof (induction evs arbitrary: st)
  case Nil
  then show ?case by simp
next
  case (Cons e evs)
  from step_running [OF Cons.prems, of e] obtain st1 where
    s: "step e st = Inr st1" "running st1" "sid (snd st1) = sid (snd st)"
       "windowHalfX (snd st1) = windowHalfX (snd st)"
    by blast
  from Cons.IH [OF s(2)] s show ?case by auto
qed

section \<open>The water phase\<close>

lemma step_water_time:
  assumes "running st" and "step e st = Inr st'" and "water_time st = Some t"
  shows "water_time st' = Some (if is_Frame e then advance_time t else t)"
proof -
  obtain w s where st: "st = (w, s)" by (cases st)
  from assms(1) st obtain cam sc wt r where
    v: "camera s = Some cam" "scene s = Some sc" "water s = Some wt" "renderer s = Some r"
       "animationLoop r = Some (H_animate (sid s))"
    by (auto simp: running_def)
  show ?thesis
    using assms(2,3) unfolding st
    by (cases e)
       (auto simp: v water_time_def with_world_def animate_def render_def Let_def advance_time_def
          onDocumentMouseMove_def onWindowResize_def resized_def updateProjectionMatrix_def
          renderer_render_def texture_onLoad_def model_onLoad_def
          split: option.splits if_splits)
qed

lemma run_water_time:
  "running st \<Longrightarrow> run evs st = Inr st' \<Longrightarrow> water_time st = Some t
     \<Longrightarrow> water_time st' = Some ((advance_time ^^ frames evs) t)"
proof (induction evs arbitrary: st t)
  case Nil
  then show ?case by (simp add: frames_def)
next
  case (Cons e evs)
  from step_running [OF Cons.prems(1), of e] obtain st1 where
    s: "step e st = Inr st1" "running st1"
    by blast
  have t1: "water_time st1 = Some (if is_Frame e then advance_time t else t)"
    using step_water_time [OF Cons.prems(1) s(1) Cons.prems(3)] .
  have r: "run evs st1 = Inr st'" using Cons.prems(2) s(1) by simp
  have "water_time st' = Some ((advance_time ^^ frames evs) (if is_Frame e then advance_time t else t))"
    using Cons.IH [OF s(2) r t1] .
  then show ?case by (simp add: frames_def funpow_swap1)
qed

lemma step_1_40: "fdiv 1 40 = 3602879701896397 / 144115188075855872"
  using round64_near [where r = "1 / 40" and k = 58 and n = 7205759403792794]
  by (simp add: fdiv_def)

lemma advance_time_3: "(advance_time ^^ 3) 0 = 1351079888211149 / 18014398509481984"
proof -
  have t1: "advance_time 0 = 3602879701896397 / 144115188075855872"
    using round64_near [where r = "3602879701896397 / 144115188075855872" and k = 58
        and n = 7205759403792794]
    by (simp add: advance_time_def fadd_def step_1_40)
  have t2: "advance_time (3602879701896397 / 144115188075855872) = 3602879701896397 / 72057594037927936"
    using round64_near [where r = "3602879701896397 / 72057594037927936" and k = 57
        and n = 7205759403792794]
    by (simp add: advance_time_def fadd_def step_1_40)
  have t3: "advance_time (3602879701896397 / 72057594037927936) = 1351079888211149 / 18014398509481984"
    using round64_tie [where r = "10808639105689191 / 144115188075855872" and k = 56
        and n = 5404319552844596]
    by (simp add: advance_time_def fadd_def step_1_40)
  show ?thesis by (simp add: numeral_3_eq_3 t1 t2 t3)
qed

lemma advance_time_near:
  "k \<le> 2 ^ 25 \<Longrightarrow> \<bar>(advance_time ^^ k) 0 - real k / 40\<bar> \<le> real k / 2 ^ 32"
proof (induction k)
  case 0
  show ?case by simp
next
  case (Suc k)
  define t where "t = (advance_time ^^ k) 0"
  define c :: real where "c = 3602879701896397 / 144115188075855872"
  have k: "real k \<le> 2 ^ 25 - 1" using Suc.prems by simp
  have ih: "\<bar>t - real k / 40\<bar> \<le> real k / 2 ^ 32" using Suc t_def by simp
  have c: "\<bar>c - 1 / 40\<bar> \<le> 1 / 2 ^ 33" "0 \<le> c" "c \<le> 1" by (simp_all add: c_def)
  have "\<bar>t + c\<bar> \<le> real k / 40 + real k / 2 ^ 32 + 1" using ih c by linarith
  also have "\<dots> \<le> 2 ^ 20" using k by simp
  finally have m: "\<bar>t + c\<bar> \<le> 2 ^ 20" .
  have r: "\<bar>round64 (t + c) - (t + c)\<bar> \<le> 1 / 2 ^ 33"
    using round64_error [OF m] by simp
  have a: "(advance_time ^^ Suc k) 0 = round64 (t + c)"
    by (simp add: t_def advance_time_def fadd_def step_1_40 c_def)
  have eq: "round64 (t + c) - real (Suc k) / 40
          = (round64 (t + c) - (t + c)) + (t - real k / 40) + (c - 1 / 40)"
    by (simp add: add_divide_distrib)
  have "\<bar>round64 (t + c) - real (Suc k) / 40\<bar>
          \<le> \<bar>round64 (t + c) - (t + c)\<bar> + \<bar>t - real k / 40\<bar> + \<bar>c - 1 / 40\<bar>"
    unfolding eq by linarith
  also have "\<dots> \<le> 1 / 2 ^ 33 + real k / 2 ^ 32 + 1 / 2 ^ 33" using r ih c(1) by linarith
  also have "\<dots> = real (Suc k) / 2 ^ 32" by (simp add: field_simps)
  finally show ?case unfolding a .
qed

text \<open>
  Claim C1, as stated, fails: the phase is accumulated in doubles. After three frames it
  is \<open>1351079888211149 / 2 ^ 54\<close> (printed \<open>0.07500000000000001\<close>), not \<open>3 / 40\<close>.
\<close>

theorem water_phase_exact_counterexample:
  "\<not> water_phase_exact [Frame 0, Frame 16, Frame 33] (page (Some host))"
proof -
  have c: "container (page (Some host)) = Some host" by (simp add: page_def)
  from boot_result [OF c] obtain st0 where
    b: "boot (page (Some host)) = Inr st0" "running st0" "water_time st0 = Some 0"
    by blast
  from run_running [OF b(2), of "[Frame 0, Frame 16, Frame 33]"] obtain st where
    r: "run [Frame 0, Frame 16, Frame 33] st0 = Inr st"
    by blast
  have f: "frames [Frame 0, Frame 16, Frame 33] = 3" by (simp add: frames_def)
  have "water_time st = Some (1351079888211149 / 18014398509481984)"
    using run_water_time [OF b(2) r b(3)] by (simp only: f advance_time_3)
  then have "water_time st \<noteq> Some (real 3 / 40)" by simp
  then show ?thesis
    by (simp only: water_phase_exact_def b(1) r f sum.case not_False_eq_True)
qed

text \<open>
  Claim C1, amended. On a page that has the container, the script starts, and after any
  sequence of events (frames at any clock values, pointer moves, resizes, load progress
  and outcomes, so with or without the model) the run has not raised and the water's
  \<open>time\<close> uniform is the result of adding the step \<open>1.0 / 40.0\<close> to 0 in double
  arithmetic once per frame of the sequence: it depends on the number of frames alone.
  It is the number of frames divided by 40 up to rounding: for at most \<open>2 ^ 25\<close> frames,
  within the number of frames divided by \<open>2 ^ 32\<close>.
\<close>

theorem water_phase_after_frames:
  assumes "container w = Some c"
  shows "\<exists>st0 st t. boot w = Inr st0 \<and> run evs st0 = Inr st
           \<and> water_time st = Some t
           \<and> t = (advance_time ^^ frames evs) 0
           \<and> (frames evs \<le> 2 ^ 25 \<longrightarrow> \<bar>t - real (frames evs) / 40\<bar> \<le> real (frames evs) / 2 ^ 32)"
proof -
  from boot_result [OF assms] obtain st0 where
    b: "boot w = Inr st0" "running st0" "water_time st0 = Some 0"
    by blast
  from run_running [OF b(2), of evs] obtain st where r: "run evs st0 = Inr st" by blast
  have "water_time st = Some ((advance_time ^^ frames evs) 0)"
    using run_water_time [OF b(2) r b(3)] .
  with b(1) r advance_time_near [of "frames evs"] show ?thesis by blast
qed

theorem water_phase_after_frames_witness:
  "container (page (Some host)) = Some host \<and>
   (\<exists>st0 st t. boot (page (Some host)) = Inr st0
      \<and> run [Frame 16, ModelLoaded gltf, Frame 5000, MouseMove 3, Frame 5016] st0 = Inr st
      \<and> water_time st = Some t
      \<and> t = (advance_time ^^ 3) 0
      \<and> \<bar>t - 3 / 40\<bar> \<le> 3 / 2 ^ 32)"
proof -
  have h: "container (page (Some host)) = Some host" by (simp add: page_def)
  have f: "frames [Frame 16, ModelLoaded gltf, Frame 5000, MouseMove 3, Frame 5016] = 3"
    by (simp add: frames_def)
  show ?thesis
    using h water_phase_after_frames [OF h, of "[Frame 16, ModelLoaded gltf, Frame 5000, MouseMove 3, Frame 5016]"]
    by (simp add: f)
qed

section \<open>The motion of the model\<close>



section \<open>The camera follows the pointer\<close>











section \<open>The pointer state\<close>

lemma step_listeners:
  assumes "step e st = Inr st'"
  shows "mousemove_listeners (fst st') = mousemove_listeners (fst st)
       \<and> resize_listeners (fst st') = resize_listeners (fst st)"
proof -
  obtain w s where st: "st = (w, s)" by (cases st)
  show ?thesis
    using assms unfolding st
    by (cases e)
       (auto simp: with_world_def resized_def onProgress_def console_log_def
          loadingManager_onError_def texture_onError_def model_onError_def
          split: option.splits if_splits sum.splits)
qed

lemma run_listeners:
  "run evs st = Inr st' \<Longrightarrow> mousemove_listeners (fst st') = mousemove_listeners (fst st)
       \<and> resize_listeners (fst st') = resize_listeners (fst st)"
proof (induction evs arbitrary: st)
  case Nil
  then show ?case by simp
next
  case (Cons e evs)
  then obtain st1 where s: "step e st = Inr st1" "run evs st1 = Inr st'"
    by (auto split: sum.splits)
  from Cons.IH [OF s(2)] step_listeners [OF s(1)] show ?case by simp
qed

text \<open>
  Claim C7, as stated, fails: the handler stores twice the offset. With a half-width of
  500, a pointer move at 600 stores 200, not 100.
\<close>

theorem records_offset_counterexample:
  "\<not> records_offset_from_center 600 (new_session (page (Some host)))"
  by (simp add: records_offset_from_center_def onDocumentMouseMove_def new_session_def page_def)

text \<open>
  Claim C7, amended. A dispatched pointer-move event stores twice the offset of the event
  from \<open>windowHalfX\<close>, \<open>(clientX - windowHalfX) * 2\<close>; every other event (frame, resize,
  load progress and outcome), and a pointer move while the listener is not registered,
  leaves the stored scalar as it is.
\<close>

theorem pointer_state_written_only_by_handler:
  assumes "step e (w, s) = Inr (w', s')"
  shows "mouseX s' =
          (case e of
             MouseMove clientX \<Rightarrow>
               if H_onDocumentMouseMove (sid s) \<in> set (mousemove_listeners w)
               then (clientX - windowHalfX s) * 2 else mouseX s
           | _ \<Rightarrow> mouseX s)"
  using assms
  by (cases e)
     (auto simp: with_world_def animate_def render_def Let_def onDocumentMouseMove_def
        onWindowResize_def updateProjectionMatrix_def texture_onLoad_def model_onLoad_def
        split: option.splits if_splits)

theorem pointer_state_written_only_by_handler_witness:
  "\<exists>w s w1 s1 w2 s2. boot (page (Some host)) = Inr (w, s)
      \<and> step (MouseMove 600) (w, s) = Inr (w1, s1) \<and> mouseX s1 = 200
      \<and> step (Frame 16) (w1, s1) = Inr (w2, s2) \<and> mouseX s2 = 200"
proof -
  have c: "container (page (Some host)) = Some host" by (simp add: page_def)
  from boot_result [OF c] obtain w s where
    b: "boot (page (Some host)) = Inr (w, s)" "running (w, s)"
       "windowHalfX s = innerWidth (page (Some host)) / 2"
       "H_onDocumentMouseMove (sid s) \<in> set (mousemove_listeners w)"
    by blast
  from step_running [OF b(2), of "MouseMove 600"] obtain w1 s1 where
    m: "step (MouseMove 600) (w, s) = Inr (w1, s1)" "running (w1, s1)"
    by auto
  from step_running [OF m(2), of "Frame 16"] obtain w2 s2 where
    f: "step (Frame 16) (w1, s1) = Inr (w2, s2)"
    by auto
  have "mouseX s1 = 200"
    using pointer_state_written_only_by_handler [OF m(1)] b(3,4) by (simp add: page_def)
  moreover have "mouseX s2 = mouseX s1"
    using pointer_state_written_only_by_handler [OF f] by simp
  ultimately show ?thesis using b(1) m(1) f by auto
qed

text \<open>
  Claim C10. \<open>windowHalfX\<close> is half the inner width the window has when the script is
  evaluated. After start-up and any sequence of events, resizes of the window included,
  it still has that value, and a pointer move at \<open>clientX\<close> is dispatched to the handler
  and stores \<open>(clientX - initial inner width / 2) * 2\<close>.
\<close>

theorem pointer_center_fixed_at_load:
  assumes "container w = Some c"
  shows "\<exists>st0 w' s' s''. boot w = Inr st0 \<and> run evs st0 = Inr (w', s')
           \<and> windowHalfX s' = innerWidth w / 2
           \<and> step (MouseMove clientX) (w', s') = Inr (w', s'')
           \<and> mouseX s'' = (clientX - innerWidth w / 2) * 2"
proof -
  from boot_result [OF assms] obtain w0 s0 where
    b: "boot w = Inr (w0, s0)" "running (w0, s0)" "windowHalfX s0 = innerWidth w / 2"
       "H_onDocumentMouseMove (sid s0) \<in> set (mousemove_listeners w0)"
    by blast
  from run_running [OF b(2), of evs] obtain w' s' where
    r: "run evs (w0, s0) = Inr (w', s')" "sid s' = sid s0" "windowHalfX s' = windowHalfX s0"
    by auto
  have l: "mousemove_listeners w' = mousemove_listeners w0"
    using run_listeners [OF r(1)] by simp
  have "step (MouseMove clientX) (w', s') = Inr (w', onDocumentMouseMove clientX s')"
    using b(4) l r(2) by simp
  moreover have "mouseX (onDocumentMouseMove clientX s') = (clientX - innerWidth w / 2) * 2"
    by (simp add: onDocumentMouseMove_def r(3) b(3))
  ultimately show ?thesis using b(1) r(1) r(3) b(3) by auto
qed

theorem pointer_center_fixed_at_load_witness:
  "container (page (Some host)) = Some host \<and>
   (\<exists>st0 w' s' s''. boot (page (Some host)) = Inr st0
      \<and> run [Resize 500 400 300, Frame 16, Resize 200 100 100] st0 = Inr (w', s')
      \<and> innerWidth w' = 200 \<and> windowHalfX s' = 500
      \<and> step (MouseMove 600) (w', s') = Inr (w', s'')
      \<and> mouseX s'' = 200)"
proof -
  have c: "container (page (Some host)) = Some host" by (simp add: page_def)
  have i: "innerWidth (page (Some host)) = 1000" by (simp add: page_def)
  from pointer_center_fixed_at_load [OF c, of "[Resize 500 400 300, Frame 16, Resize 200 100 100]" 600]
  obtain st0 w' s' s'' where
    p: "boot (page (Some host)) = Inr st0"
       "run [Resize 500 400 300, Frame 16, Resize 200 100 100] st0 = Inr (w', s')"
       "windowHalfX s' = 500" "step (MouseMove 600) (w', s') = Inr (w', s'')" "mouseX s'' = 200"
    by (auto simp: i)
  have "innerWidth w' = 200"
    using p(2)
    by (cases st0)
       (auto simp: with_world_def resized_def split: option.splits if_splits sum.splits)
  with c p show ?thesis by blast
qed

section \<open>The sun and the lighting environment: properties\<close>

lemma spherical_sum:
  fixes a b c d :: real
  assumes "a * a + b * b = 1" and "c * c + d * d = 1"
  shows "(a * c) * (a * c) + b * b + (a * d) * (a * d) = 1"
proof -
  have "(a * c) * (a * c) + b * b + (a * d) * (a * d) = a * a * (c * c + d * d) + b * b"
    by (simp add: algebra_simps)
  with assms show ?thesis by simp
qed

lemma spherical_unit: "vec_length (setFromSphericalCoords 1 phi theta) = 1"
proof -
  have p: "sin phi * sin phi + cos phi * cos phi = 1"
    using sin_cos_squared_add [of phi] by (simp add: power2_eq_square)
  have t: "sin theta * sin theta + cos theta * cos theta = 1"
    using sin_cos_squared_add [of theta] by (simp add: power2_eq_square)
  have "vec_length (setFromSphericalCoords 1 phi theta)
          = sqrt ((sin phi * sin theta) * (sin phi * sin theta) + cos phi * cos phi
                  + (sin phi * cos theta) * (sin phi * cos theta))"
    by (simp add: vec_length_def setFromSphericalCoords_def Let_def)
  also have "\<dots> = sqrt 1"
    by (simp only: spherical_sum [OF p t])
  finally show ?thesis by simp
qed

lemma normalize_unit: "vec_length v = 1 \<Longrightarrow> normalize_vec v = v"
  by (simp add: normalize_vec_def divideScalar_def)

lemma normalize_spherical:
  "normalize_vec (setFromSphericalCoords 1 phi theta) = setFromSphericalCoords 1 phi theta"
  by (rule normalize_unit) (rule spherical_unit)

text \<open>
  Claim C9. Every call of \<open>updateSun\<close> that returns has set \<open>sun\<close> to the direction of
  the fixed angles (polar angle \<open>90 - 2\<close> degrees, azimuth 180 degrees), which has length
  1; the sky's \<open>sunPosition\<close> uniform is that vector and the water's \<open>sunDirection\<close>
  uniform is its normalisation, so the two are equal; the render target of the previous
  call, if there is one, has been disposed; and the scene's environment is the texture
  of the target made in this call.
\<close>

theorem updateSun_consistent:
  assumes "updateSun s = Inr s'"
  shows "\<exists>v k wt sc. v = setFromSphericalCoords 1 (degToRad (90 - 2)) (degToRad 180)
           \<and> vec_length v = 1
           \<and> sun s' = Some v
           \<and> sky s' = Some k \<and> uniform_sunPosition k = v
           \<and> water s' = Some wt \<and> uniform_sunDirection wt = normalize_vec v
           \<and> uniform_sunDirection wt = uniform_sunPosition k
           \<and> disposed_targets s' =
                disposed_targets s @ (case renderTarget s of None \<Rightarrow> [] | Some t \<Rightarrow> [t])
           \<and> renderTarget s' = Some (targets_made s)
           \<and> scene s' = Some sc \<and> environment sc = Some (targets_made s)"
  using assms
  by (auto simp: updateSun_def Let_def spherical_unit normalize_spherical add_node_def detach_def
      split: option.splits)

lemma boot_lighting:
  assumes "container w = Some c"
  shows "\<exists>w' s'. boot w = Inr (w', s') \<and> sun s' \<noteq> None \<and> sky s' \<noteq> None \<and> water s' \<noteq> None
     \<and> sceneEnv s' \<noteq> None \<and> scene s' \<noteq> None
     \<and> renderTarget s' = Some 0 \<and> targets_made s' = 1 \<and> disposed_targets s' = []"
  using assms
  by (simp add: boot_def init_def module_load_def new_session_def init_scene_def updateSun_def
      Let_def)

lemma updateSun_defined:
  assumes "sun s \<noteq> None" "sky s \<noteq> None" "water s \<noteq> None" "sceneEnv s \<noteq> None" "scene s \<noteq> None"
  shows "\<exists>s'. updateSun s = Inr s'"
  using assms by (auto simp: updateSun_def Let_def)

theorem updateSun_consistent_witness:
  "\<exists>w s s'. boot (page (Some host)) = Inr (w, s) \<and> renderTarget s = Some 0
      \<and> updateSun s = Inr s'
      \<and> map_option vec_length (sun s') = Some 1
      \<and> map_option uniform_sunDirection (water s') = map_option uniform_sunPosition (sky s')
      \<and> disposed_targets s' = [0] \<and> renderTarget s' = Some 1
      \<and> map_option environment (scene s') = Some (Some 1)"
proof -
  have c: "container (page (Some host)) = Some host" by (simp add: page_def)
  from boot_lighting [OF c] obtain w s where
    b: "boot (page (Some host)) = Inr (w, s)" "sun s \<noteq> None" "sky s \<noteq> None" "water s \<noteq> None"
       "sceneEnv s \<noteq> None" "scene s \<noteq> None" "renderTarget s = Some 0" "targets_made s = 1"
       "disposed_targets s = []"
    by blast
  from updateSun_defined [OF b(2-6)] obtain s' where u: "updateSun s = Inr s'" by blast
  from updateSun_consistent [OF u] b u show ?thesis by auto
qed

section \<open>A failed model load\<close>

lemma step_no_model:
  assumes "water_and_sky_only st" and "frames_drawn st = Some ds"
    and "\<not> is_ModelLoaded e \<or> model_request (snd st) = Settled"
  shows "\<exists>st'. step e st = Inr st' \<and> water_and_sky_only st'
     \<and> frames_drawn st' = Some (ds @ (if is_Frame e then [[WaterNode, SkyNode]] else []))
     \<and> set (console (fst st)) \<subseteq> set (console (fst st'))
     \<and> (model_request (snd st) = Settled \<longrightarrow> model_request (snd st') = Settled)
     \<and> (\<not> is_model_outcome e \<longrightarrow> model_request (snd st') = model_request (snd st))"
proof -
  obtain w s where st: "st = (w, s)" by (cases st)
  from assms(1,2) st obtain cam sc wt r where
    v: "camera s = Some cam" "scene s = Some sc" "water s = Some wt" "renderer s = Some r"
       "animationLoop r = Some (H_animate (sid s))" "modelT s = None"
       "scene_children sc = [WaterNode, SkyNode]" "drawn r = ds"
    by (auto simp: water_and_sky_only_def running_def frames_drawn_def)
  show ?thesis
    using assms(3) unfolding st
    by (cases e)
       (auto simp: v water_and_sky_only_def running_def frames_drawn_def with_world_def
          animate_def render_def Let_def
          onDocumentMouseMove_def onWindowResize_def resized_def updateProjectionMatrix_def
          renderer_render_def texture_onLoad_def model_onLoad_def onProgress_def console_log_def
          loadingManager_onError_def texture_onError_def model_onError_def
          split: option.splits)
qed

lemma run_no_model:
  "water_and_sky_only st \<Longrightarrow> frames_drawn st = Some ds
     \<Longrightarrow> filter is_ModelLoaded evs = [] \<or> model_request (snd st) = Settled
     \<Longrightarrow> \<exists>st'. run evs st = Inr st' \<and> water_and_sky_only st'
     \<and> frames_drawn st' = Some (ds @ replicate (frames evs) [WaterNode, SkyNode])
     \<and> set (console (fst st)) \<subseteq> set (console (fst st'))
     \<and> (model_request (snd st) = Settled \<longrightarrow> model_request (snd st') = Settled)
     \<and> (filter is_model_outcome evs = [] \<longrightarrow> model_request (snd st') = model_request (snd st))"
proof (induction evs arbitrary: st ds)
  case Nil
  then show ?case by (simp add: frames_def)
next
  case (Cons e evs)
  have g: "\<not> is_ModelLoaded e \<or> model_request (snd st) = Settled"
    using Cons.prems(3) by (auto split: if_splits)
  from step_no_model [OF Cons.prems(1,2) g] obtain st1 where
    s: "step e st = Inr st1" "water_and_sky_only st1"
       "frames_drawn st1 = Some (ds @ (if is_Frame e then [[WaterNode, SkyNode]] else []))"
       "set (console (fst st)) \<subseteq> set (console (fst st1))"
       "model_request (snd st) = Settled \<longrightarrow> model_request (snd st1) = Settled"
       "\<not> is_model_outcome e \<longrightarrow> model_request (snd st1) = model_request (snd st)"
    by blast
  have g1: "filter is_ModelLoaded evs = [] \<or> model_request (snd st1) = Settled"
    using Cons.prems(3) s(5) by (auto split: if_splits)
  from Cons.IH [OF s(2,3) g1] obtain st' where
    r: "run evs st1 = Inr st'" "water_and_sky_only st'"
       "frames_drawn st' = Some ((ds @ (if is_Frame e then [[WaterNode, SkyNode]] else []))
           @ replicate (frames evs) [WaterNode, SkyNode])"
       "set (console (fst st1)) \<subseteq> set (console (fst st'))"
       "model_request (snd st1) = Settled \<longrightarrow> model_request (snd st') = Settled"
       "filter is_model_outcome evs = [] \<longrightarrow> model_request (snd st') = model_request (snd st1)"
    by blast
  have f: "frames (e # evs) = (if is_Frame e then 1 else 0) + frames evs"
    by (simp add: frames_def)
  have d: "frames_drawn st' = Some (ds @ replicate (frames (e # evs)) [WaterNode, SkyNode])"
    using r(3) by (simp add: f)
  have o: "filter is_model_outcome (e # evs) = [] \<longrightarrow> model_request (snd st') = model_request (snd st)"
    using r(6) s(6) by (auto split: if_splits)
  show ?case
    using s(1) r(1,2) d s(4) r(4) s(5) r(5) o by auto
qed

lemma run_append:
  "run (xs @ ys) st = (case run xs st of Inl x \<Rightarrow> Inl x | Inr st' \<Rightarrow> run ys st')"
  by (induction xs arbitrary: st) (auto split: sum.splits)

lemma no_outcome_no_load: "filter is_model_outcome evs = [] \<Longrightarrow> filter is_ModelLoaded evs = []"
proof (induction evs)
  case Nil
  then show ?case by simp
next
  case (Cons e evs)
  then show ?case by (cases e) (auto split: if_splits)
qed

text \<open>
  Claim C6. On a page that has the container, let the model load fail with error \<open>e\<close>
  after any events \<open>evs1\<close> that do not settle it, and let any events \<open>evs2\<close> follow. The
  run does not raise; the failure is on the console; the session is still running; the
  model slot is empty and stays so (the request is settled, and a later success event
  is not delivered); and every frame of the run has drawn the water and the sky.
\<close>

theorem model_load_failure_tolerated:
  assumes "container w = Some c" and "filter is_model_outcome evs1 = []"
  shows "\<exists>st0 w' s'. boot w = Inr st0 \<and> run (evs1 @ ModelError e # evs2) st0 = Inr (w', s')
           \<and> running (w', s') \<and> modelT s' = None \<and> model_request s' = Settled
           \<and> Error_GLTFModel e \<in> set (console w')
           \<and> map_option scene_children (scene s') = Some [WaterNode, SkyNode]
           \<and> frames_drawn (w', s')
                = Some (replicate (frames (evs1 @ ModelError e # evs2)) [WaterNode, SkyNode])"
proof -
  from boot_result [OF assms(1)] obtain st0 where
    b: "boot w = Inr st0" "water_and_sky_only st0" "frames_drawn st0 = Some []"
       "model_request (snd st0) = InFlight"
    by (auto simp: water_and_sky_only_def)
  have n1: "filter is_ModelLoaded evs1 = [] \<or> model_request (snd st0) = Settled"
    using no_outcome_no_load [OF assms(2)] by simp
  from run_no_model [OF b(2,3) n1] assms(2) b(4) obtain st1 where
    r1: "run evs1 st0 = Inr st1" "water_and_sky_only st1"
        "frames_drawn st1 = Some (replicate (frames evs1) [WaterNode, SkyNode])"
        "model_request (snd st1) = InFlight"
    by auto
  have ne: "\<not> is_ModelLoaded (ModelError e) \<or> model_request (snd st1) = Settled" by simp
  from step_no_model [OF r1(2,3) ne] obtain st2 where
    r2: "step (ModelError e) st1 = Inr st2" "water_and_sky_only st2"
        "frames_drawn st2 = Some (replicate (frames evs1) [WaterNode, SkyNode])"
    by auto
  have l2: "Error_GLTFModel e \<in> set (console (fst st2))" "model_request (snd st2) = Settled"
    using r2(1) r1(4)
    by (cases st1; auto simp: model_onError_def loadingManager_onError_def console_log_def)+
  have n3: "filter is_ModelLoaded evs2 = [] \<or> model_request (snd st2) = Settled"
    using l2(2) by simp
  from run_no_model [OF r2(2,3) n3] l2(2) obtain st3 where
    r3: "run evs2 st2 = Inr st3" "water_and_sky_only st3"
        "frames_drawn st3 = Some (replicate (frames evs1) [WaterNode, SkyNode]
            @ replicate (frames evs2) [WaterNode, SkyNode])"
        "set (console (fst st2)) \<subseteq> set (console (fst st3))"
        "model_request (snd st3) = Settled"
    by auto
  have run: "run (evs1 @ ModelError e # evs2) st0 = Inr st3"
    by (simp add: run_append r1(1) r2(1) r3(1))
  have f: "frames (evs1 @ ModelError e # evs2) = frames evs1 + frames evs2"
    by (simp add: frames_def)
  have d: "frames_drawn st3 = Some (replicate (frames (evs1 @ ModelError e # evs2)) [WaterNode, SkyNode])"
    using r3(3) by (simp add: f replicate_add)
  show ?thesis
    using b(1) run r3(2,5) l2(1) r3(4) d
    by (cases st3) (auto simp: water_and_sky_only_def)
qed

theorem model_load_failure_tolerated_witness:
  "container (page (Some host)) = Some host
   \<and> filter is_model_outcome [Frame 0, ModelProgress 1 2] = []
   \<and> (\<exists>st0 w' s'. boot (page (Some host)) = Inr st0
        \<and> run ([Frame 0, ModelProgress 1 2] @ ModelError ''404'' # [Frame 16, ModelLoaded gltf, Frame 33])
              st0 = Inr (w', s')
        \<and> modelT s' = None \<and> Error_GLTFModel ''404'' \<in> set (console w')
        \<and> frames_drawn (w', s') = Some [[WaterNode, SkyNode], [WaterNode, SkyNode], [WaterNode, SkyNode]])"
proof -
  have c: "container (page (Some host)) = Some host" by (simp add: page_def)
  have n: "filter is_model_outcome [Frame 0, ModelProgress 1 2] = []" by simp
  have f: "frames ([Frame 0, ModelProgress 1 2] @ ModelError ''404'' # [Frame 16, ModelLoaded gltf, Frame 33])
             = 3"
    by (simp add: frames_def)
  have r: "replicate 3 [WaterNode, SkyNode] = [[WaterNode, SkyNode], [WaterNode, SkyNode], [WaterNode, SkyNode]]"
    by (simp add: numeral_3_eq_3)
  from model_load_failure_tolerated [OF c n, of "''404''" "[Frame 16, ModelLoaded gltf, Frame 33]"]
  obtain st0 w' s' where
    m: "boot (page (Some host)) = Inr st0"
       "run ([Frame 0, ModelProgress 1 2] @ ModelError ''404'' # [Frame 16, ModelLoaded gltf, Frame 33])
              st0 = Inr (w', s')"
       "modelT s' = None" "Error_GLTFModel ''404'' \<in> set (console w')"
       "frames_drawn (w', s') = Some (replicate (frames ([Frame 0, ModelProgress 1 2] @ ModelError ''404''
            # [Frame 16, ModelLoaded gltf, Frame 33])) [WaterNode, SkyNode])"
    by blast
  have "frames_drawn (w', s') = Some [[WaterNode, SkyNode], [WaterNode, SkyNode], [WaterNode, SkyNode]]"
    using m(5) unfolding f r .
  with c n m(1-4) show ?thesis by blast
qed

section \<open>The component: mount, unmount and remount\<close>

lemma Ocean_useEffect_result:
  assumes "container w = Some c"
  shows "\<exists>w' s'. Ocean_useEffect w = Inr (w', Some s') \<and> running (w', s') \<and> sid s' = fresh w
     \<and> fresh w' = Suc (Suc (fresh w))
     \<and> modelT s' = None \<and> model_request s' = InFlight
     \<and> map_option scene_children (scene s') = Some [WaterNode, SkyNode]
     \<and> mousemove_listeners w' = addEventListener (H_onDocumentMouseMove (fresh w)) (mousemove_listeners w)
     \<and> resize_listeners w' = addEventListener (H_onWindowResize (fresh w)) (resize_listeners w)
     \<and> container w' \<noteq> None \<and> console w' = console w"
proof -
  let ?s = "new_session w"
  let ?w = "w\<lparr>fresh := Suc (fresh w),
              mousemove_listeners := addEventListener (H_onDocumentMouseMove (sid ?s)) (mousemove_listeners w)\<rparr>"
  obtain w1 s1 where i: "init_scene c ?w ?s = Inr (w1, s1)" and r: "running (w1, s1)"
    and f: "sid s1 = sid ?s" "modelT s1 = modelT ?s" "model_request s1 = InFlight"
      "map_option scene_children (scene s1) = Some [WaterNode, SkyNode]"
      "mousemove_listeners w1 = mousemove_listeners ?w" "resize_listeners w1 = resize_listeners ?w"
      "console w1 = console ?w" "fresh w1 = Suc (fresh ?w)"
    using init_scene_result [of c ?w ?s] by blast
  have cont: "container w1 \<noteq> None"
    using i by (auto simp: init_scene_def Let_def updateSun_def split: sum.splits option.splits)
  have e: "Ocean_useEffect w = Inr (w1\<lparr>resize_listeners :=
              addEventListener (H_onWindowResize (sid ?s)) (resize_listeners w1)\<rparr>, Some s1)"
    using assms i by (simp add: Ocean_useEffect_def Let_def)
  have n: "sid ?s = fresh w" "modelT ?s = None" by (simp_all add: new_session_def)
  show ?thesis
    using e r f cont n by (simp add: running_def)
qed

lemma fold_dispose_kept:
  "scene (fold dispose_node xs t) = scene t \<and> renderer (fold dispose_node xs t) = renderer t
     \<and> sid (fold dispose_node xs t) = sid t
     \<and> (modelT t = None \<longrightarrow> modelT (fold dispose_node xs t) = None)"
proof (induction xs arbitrary: t)
  case Nil
  show ?case by simp
next
  case (Cons n xs)
  show ?case using Cons.IH [of "dispose_node n t"] by (cases n) simp_all
qed

lemma fold_dispose_water:
  "(water (fold dispose_node xs t) = None) = (water t = None)"
proof (induction xs arbitrary: t)
  case Nil
  show ?case by simp
next
  case (Cons n xs)
  show ?case using Cons.IH [of "dispose_node n t"] by (cases n) simp_all
qed

lemma Ocean_cleanup_result:
  assumes "running (w, s)" and "map_option scene_children (scene s) = Some ns" and "container w \<noteq> None"
  shows "\<exists>w' s'. Ocean_cleanup w s = (w', s')
     \<and> mousemove_listeners w' = removeEventListener (H_onDocumentMouseMove (sid s)) (mousemove_listeners w)
     \<and> resize_listeners w' = removeEventListener (H_onWindowResize (sid s)) (resize_listeners w)
     \<and> container w' \<noteq> None \<and> fresh w' = fresh w \<and> sid s' = sid s
     \<and> map_option scene_children (scene s') = Some ns
     \<and> map_option renderer_disposed (renderer s') = Some True
     \<and> map_option animationLoop (renderer s') = Some None
     \<and> (modelT s = None \<longrightarrow> modelT s' = None) \<and> water s' \<noteq> None"
proof -
  from assms obtain sc r where v: "scene s = Some sc" "renderer s = Some r" "scene_children sc = ns"
    and wt: "water s \<noteq> None"
    by (auto simp: running_def)
  show ?thesis
    using assms(3) wt
    by (auto simp: Ocean_cleanup_def Let_def v fold_dispose_kept fold_dispose_water
        remove_canvas_def renderer_dispose_def simp del: not_None_eq)
qed


text \<open>
  The standalone script has no teardown. Its listeners are module-level functions, so
  running \<open>init\<close> again on the started script registers nothing twice.
\<close>

lemma init_again_keeps_listeners:
  assumes "container w = Some c" and "boot w = Inr (w1, s1)"
  shows "\<exists>w2 s2. init w1 s1 = Inr (w2, s2)
           \<and> mousemove_listeners w2 = mousemove_listeners w1
           \<and> resize_listeners w2 = resize_listeners w1"
proof -
  from boot_result [OF assms(1)] assms(2) have
    l: "H_onDocumentMouseMove (sid s1) \<in> set (mousemove_listeners w1)"
       "H_onWindowResize (sid s1) \<in> set (resize_listeners w1)"
    by auto
  have "container w1 \<noteq> None"
    using assms
    by (auto simp: boot_def init_def module_load_def init_scene_def Let_def updateSun_def
        register_listeners_def split: sum.splits option.splits)
  then obtain c1 where c1: "container w1 = Some c1" by auto
  from init_scene_result [of c1 w1 s1] obtain w2 s2 where
    i: "init_scene c1 w1 s1 = Inr (w2, s2)" "sid s2 = sid s1"
       "mousemove_listeners w2 = mousemove_listeners w1" "resize_listeners w2 = resize_listeners w1"
    by blast
  have "init w1 s1 = Inr (register_listeners w2 s2, s2)"
    by (simp add: init_def c1 i(1))
  moreover have "mousemove_listeners (register_listeners w2 s2) = mousemove_listeners w1"
    "resize_listeners (register_listeners w2 s2) = resize_listeners w1"
    using l i(2,3,4) by (simp_all add: register_listeners_def addEventListener_def Let_def)
  ultimately show ?thesis by simp
qed



text \<open>
  Claim C4, as stated, fails: no liveness check stands in the success callback. On the
  example page, a model that arrives after the cleanup changes the session.
\<close>

theorem late_model_load_counterexample:
  "\<not> late_load_is_noop gltf (page (Some host))"
  by (simp add: late_load_is_noop_def Ocean_useEffect_def Ocean_cleanup_def page_def host_def
      new_session_def init_scene_def updateSun_def Let_def model_onLoad_def addEventListener_def
      add_node_def detach_def Scene_new_def)

text \<open>
  Claim C4, amended. The success callbacks of the loads do after the cleanup what they do
  before it. On a page that has the container, after mount and unmount (the renderer
  disposed, the model slot empty, the scene holding the water and the sky), the callback
  of the texture load sets the wrap modes of the water's normal map to repeating, and
  the callback of the model load returns without raising, stores the model in the model
  slot with position (0, 0, 0) and scale (20, 20, 20), and appends the model node to the
  scene.
\<close>

theorem late_model_load_attaches:
  assumes "container w = Some c"
  shows "\<exists>w1 s1 w2 s2 s3. Ocean_useEffect w = Inr (w1, Some s1)
           \<and> Ocean_cleanup w1 s1 = (w2, s2)
           \<and> map_option renderer_disposed (renderer s2) = Some True
           \<and> modelT s2 = None
           \<and> map_option scene_children (scene s2) = Some [WaterNode, SkyNode]
           \<and> map_option waterNormals (water (texture_onLoad s2))
                = Some \<lparr>wrapS = RepeatWrapping, wrapT = RepeatWrapping\<rparr>
           \<and> model_onLoad g s2 = Inr s3
           \<and> modelT s3 = Some (g\<lparr>position := vec_set 0 0 0, scale := vec_set 20 20 20\<rparr>)
           \<and> map_option scene_children (scene s3) = Some [WaterNode, SkyNode, ModelNode]"
proof -
  from Ocean_useEffect_result [OF assms(1)] obtain w1 s1 where
    e1: "Ocean_useEffect w = Inr (w1, Some s1)" "running (w1, s1)"
        "map_option scene_children (scene s1) = Some [WaterNode, SkyNode]"
        "container w1 \<noteq> None" "modelT s1 = None"
    by blast
  from Ocean_cleanup_result [OF e1(2,3,4)] obtain w2 s2 where
    c: "Ocean_cleanup w1 s1 = (w2, s2)"
       "map_option scene_children (scene s2) = Some [WaterNode, SkyNode]"
       "map_option renderer_disposed (renderer s2) = Some True"
       "modelT s2 = None" "water s2 \<noteq> None"
    using e1(5) by blast
  have t: "map_option waterNormals (water (texture_onLoad s2))
             = Some \<lparr>wrapS = RepeatWrapping, wrapT = RepeatWrapping\<rparr>"
    using c(5) by (auto simp: texture_onLoad_def)
  from c(2) obtain sc where sc: "scene s2 = Some sc" "scene_children sc = [WaterNode, SkyNode]"
    by auto
  have "model_onLoad g s2 = Inr (s2\<lparr>modelT := Some (g\<lparr>position := vec_set 0 0 0,
            scale := vec_set 20 20 20\<rparr>), scene := Some (add_node ModelNode sc)\<rparr>)"
    by (simp add: model_onLoad_def Let_def sc)
  with e1(1) c t sc show ?thesis by (simp add: add_node_def)
qed

theorem late_model_load_attaches_witness:
  "container (page (Some host)) = Some host
   \<and> (\<exists>w1 s1 w2 s2 s3. Ocean_useEffect (page (Some host)) = Inr (w1, Some s1)
        \<and> Ocean_cleanup w1 s1 = (w2, s2)
        \<and> modelT s2 = None
        \<and> model_onLoad gltf s2 = Inr s3
        \<and> map_option scale (modelT s3) = Some (vec_set 20 20 20)
        \<and> map_option scene_children (scene s3) = Some [WaterNode, SkyNode, ModelNode])"
proof -
  have c: "container (page (Some host)) = Some host" by (simp add: page_def)
  from late_model_load_attaches [OF c, of gltf] c show ?thesis by auto
qed

section \<open>A page without the container\<close>

text \<open>
  Claim C5, as stated, fails for the component: its effect returns early without logging.
\<close>

theorem missing_container_effect_counterexample:
  "\<not> effect_logs_missing_container (page None)"
  by (simp add: effect_logs_missing_container_def Ocean_useEffect_def page_def)

text \<open>
  Claim C5, amended. Without the container nothing is initialised. \<open>init\<close> of the
  standalone script logs the error and returns: the page is otherwise unchanged (no
  canvas, no listener) and so are the variables of the session, which after start-up
  are still the freshly declared ones (no renderer, camera, scene, water, sun or model,
  no load requested). The effect of the component returns at once: the page is
  unchanged, nothing is logged, and there is no session and no cleanup.
\<close>

theorem missing_container_aborts:
  assumes "container w = None"
  shows "init w s = Inr (w\<lparr>console := console w @ [Error_NoContainer]\<rparr>, s)
       \<and> boot w = Inr (w\<lparr>fresh := Suc (fresh w), console := console w @ [Error_NoContainer]\<rparr>,
                       new_session w)
       \<and> Ocean_useEffect w = Inr (w, None)"
  using assms
  by (simp add: init_def boot_def module_load_def Ocean_useEffect_def console_log_def)

theorem missing_container_aborts_witness:
  "container (page None) = None
   \<and> (\<exists>w s. boot (page None) = Inr (w, s) \<and> console w = [Error_NoContainer]
        \<and> container w = None \<and> mousemove_listeners w = [] \<and> resize_listeners w = []
        \<and> renderer s = None \<and> camera s = None \<and> scene s = None \<and> water s = None
        \<and> sky s = None \<and> modelT s = None
        \<and> texture_request s = NotRequested \<and> model_request s = NotRequested)
   \<and> Ocean_useEffect (page None) = Inr (page None, None)"
proof -
  have c: "container (page None) = None" by (simp add: page_def)
  from missing_container_aborts [OF c] c show ?thesis
    by (simp add: page_def new_session_def)
qed

end
